theory Spec2Isabelle
  imports Main "HOL-Library.Sublist" "HOL-Library.AList" "HOL-Library.Char_ord"
    "HOL-Library.List_Lexorder" "HOL-Library.Signed_Division"
begin

section \<open>Signaling messages (signaling/signaling_message.cc, signaling_message.h)\<close>

text \<open>
  The enum \<open>SignalMessage::Type\<close> as the header declares it.
\<close>

datatype Type = UNKNOWN | JOIN | LEAVE | OFFER | ANSWER | CANDIDATE

record SignalMessage =
  msg_type :: Type
  msg_from :: string
  msg_to :: string
  sdp :: "string option"
  candidate :: "string option"
  sdpMid :: "string option"
  sdpMlineIndex :: "int option"
  reason :: "string option"

text \<open>The constructor \<open>SignalMessage(msg_type, sender, receiver)\<close>; every optional is empty.\<close>

definition SignalMessage_ctor :: "Type \<Rightarrow> string \<Rightarrow> string \<Rightarrow> SignalMessage" where
  "SignalMessage_ctor t sender receiver =
     \<lparr> msg_type = t, msg_from = sender, msg_to = receiver, sdp = None, candidate = None,
       sdpMid = None, sdpMlineIndex = None, reason = None \<rparr>"

definition typeToStringMap :: "(Type \<times> string) list" where
  "typeToStringMap =
     [(UNKNOWN, ''unknown''), (JOIN, ''join''), (LEAVE, ''leave''), (OFFER, ''offer''),
      (ANSWER, ''answer''), (CANDIDATE, ''candidate'')]"

definition stringToTypeMap :: "(string \<times> Type) list" where
  "stringToTypeMap =
     [(''unknown'', UNKNOWN), (''join'', JOIN), (''leave'', LEAVE), (''offer'', OFFER),
      (''answer'', ANSWER), (''candidate'', CANDIDATE)]"

definition StringToType :: "string \<Rightarrow> Type" where
  "StringToType typeStr =
     (case map_of stringToTypeMap typeStr of Some t \<Rightarrow> t | None \<Rightarrow> UNKNOWN)"

text \<open>
  Modelled from the spec: the body of \<open>SignalMessage::TypeToString\<close> is not part of the
  sources (only its declaration and the table \<open>typeToStringMap\<close> are). It is taken to be
  the lookup in that table, the mirror image of \<open>StringToType\<close>, which yields the lowercase
  tags of the wire format; a type missing from the table prints as the table's tag for
  \<open>UNKNOWN\<close>.
\<close>

definition TypeToString :: "Type \<Rightarrow> string" where
  "TypeToString t = (case map_of typeToStringMap t of Some s \<Rightarrow> s | None \<Rightarrow> ''unknown'')"

subsection \<open>The string operations of the standard library that the parser uses\<close>

text \<open>
  \<open>find_first pat s\<close> is the least index at which \<open>pat\<close> occurs in \<open>s\<close>;
  \<open>str_find data pat pos\<close> is \<open>data.find(pat, pos)\<close>, with \<open>None\<close> for \<open>npos\<close>;
  \<open>substr data pos n\<close> is \<open>data.substr(pos, n)\<close>, which throws \<open>std::out_of_range\<close>
  (here \<open>None\<close>) when \<open>pos\<close> lies beyond the end.
\<close>

fun find_first :: "string \<Rightarrow> string \<Rightarrow> nat option" where
  "find_first pat [] = (if pat = [] then Some 0 else None)"
| "find_first pat (c # cs) =
     (if prefix pat (c # cs) then Some 0 else map_option Suc (find_first pat cs))"

definition str_find :: "string \<Rightarrow> string \<Rightarrow> nat \<Rightarrow> nat option" where
  "str_find data pat pos =
     (if length data < pos then None
      else map_option (\<lambda>i. pos + i) (find_first pat (drop pos data)))"

definition substr :: "string \<Rightarrow> nat \<Rightarrow> nat \<Rightarrow> string option" where
  "substr data pos n = (if length data < pos then None else Some (take n (drop pos data)))"

text \<open>\<open>std::to_string\<close> on an \<open>int\<close>: decimal digits, a leading minus sign when negative.\<close>

fun digits :: "nat \<Rightarrow> string" where
  "digits n =
     (if n < 10 then [char_of (48 + n)] else digits (n div 10) @ [char_of (48 + n mod 10)])"

definition to_string :: "int \<Rightarrow> string" where
  "to_string i = (if i < 0 then CHR ''-'' # digits (nat (- i)) else digits (nat i))"

subsection \<open>SerializeSignalMessage\<close>

definition candidate_part :: "SignalMessage \<Rightarrow> string" where
  \<open>candidate_part message =
     (case candidate message of
        None \<Rightarrow> ''''
      | Some c \<Rightarrow>
          '',"candidate":{'' @ ''"candidate":"'' @ c @ ''"''
          @ (case sdpMid message of None \<Rightarrow> '''' | Some m \<Rightarrow> '',"sdpMid":"'' @ m @ ''"'')
          @ (case sdpMlineIndex message of None \<Rightarrow> ''''
             | Some i \<Rightarrow> '',"sdpMlineIndex":'' @ to_string i)
          @ ''}'')\<close>

definition SerializeSignalMessage :: "SignalMessage \<Rightarrow> string" where
  \<open>SerializeSignalMessage message =
     ''{''
     @ (''"type":"'' @ TypeToString (msg_type message) @ ''",'')
     @ (''"from":"'' @ msg_from message @ ''",'')
     @ (''"to":"'' @ msg_to message @ ''"'')
     @ (case sdp message of None \<Rightarrow> '''' | Some s \<Rightarrow> '',"sdp":"'' @ s @ ''"'')
     @ candidate_part message
     @ (case reason message of None \<Rightarrow> '''' | Some r \<Rightarrow> '',"reason":"'' @ r @ ''"'')
     @ ''}''\<close>

subsection \<open>DeserializeSignalMessage\<close>

text \<open>
  The skeleton parser runs the same block three times, for the keys \<open>"type":"\<close>,
  \<open>"from":"\<close> and \<open>"to":"\<close> with the offsets 8, 8 and 6. \<open>field_value\<close> is one such
  block: \<open>None\<close> when \<open>substr\<close> throws, \<open>Some None\<close> when the key or the closing quote is
  not found (the field of \<open>msg\<close> is then left as it is), \<open>Some (Some v)\<close> for the text
  between the key and the next double quote.
\<close>

definition field_value :: "string \<Rightarrow> string \<Rightarrow> nat \<Rightarrow> string option option" where
  \<open>field_value data key off =
     (case str_find data key 0 of
        None \<Rightarrow> Some None
      | Some key_pos \<Rightarrow>
          (let start = key_pos + off in
           case str_find data ''"'' start of
             None \<Rightarrow> Some None
           | Some end_pos \<Rightarrow>
               (case substr data start (end_pos - start) of
                  None \<Rightarrow> None
                | Some v \<Rightarrow> Some (Some v))))\<close>

text \<open>
  The whole parser. An exception anywhere in the \<open>try\<close> block is caught and turned into
  \<open>std::nullopt\<close>, here \<open>None\<close>.
\<close>

definition DeserializeSignalMessage :: "string \<Rightarrow> SignalMessage option" where
  \<open>DeserializeSignalMessage data =
     (let msg = SignalMessage_ctor UNKNOWN '''' '''' in
      case field_value data ''"type":"'' 8 of
        None \<Rightarrow> None
      | Some t \<Rightarrow>
          (let msg = (case t of None \<Rightarrow> msg | Some v \<Rightarrow> msg\<lparr>msg_type := StringToType v\<rparr>) in
           case field_value data ''"from":"'' 8 of
             None \<Rightarrow> None
           | Some f \<Rightarrow>
               (let msg = (case f of None \<Rightarrow> msg | Some v \<Rightarrow> msg\<lparr>msg_from := v\<rparr>) in
                case field_value data ''"to":"'' 6 of
                  None \<Rightarrow> None
                | Some d \<Rightarrow>
                    Some (case d of None \<Rightarrow> msg | Some v \<Rightarrow> msg\<lparr>msg_to := v\<rparr>))))\<close>

section \<open>The peer connection manager (webrtc_manager_impl.h and its implementation)\<close>

text \<open>
  Each function of the manager is one step on the manager's state. Clock readings
  (\<open>std::chrono::steady_clock::now()\<close>) are passed in as an argument, in ticks of the
  clock. Names that end in an underscore in the sources (\<open>state_\<close>,
  \<open>peerConnections_\<close>, ...) are written without it.
\<close>

datatype AppState = Uninitialized | Initializing | Initialized | Running | Stopping | Stopped

datatype PeerConnectionState = New | Connecting | Connected | Disconnected | Failed | Closed

type_synonym DataChannelMessage = string

subsection \<open>Calls that may never return\<close>

text \<open>
  \<open>mutex_\<close> is a plain \<open>std::mutex\<close>. A thread that locks it while it already holds
  it has undefined behaviour in C++ and, on the usual implementations, waits forever. A
  call of a manager function therefore either returns, with a result and the state it
  leaves, or is \<open>Blocked\<close> in the state reached at the second lock.
\<close>

datatype ('r, 'm) outcome = Returned 'r 'm | Blocked 'm

fun state_of :: "('r, 'm) outcome \<Rightarrow> 'm" where
  "state_of (Returned r m) = m"
| "state_of (Blocked m) = m"

fun then_do :: "('r, 'm) outcome \<Rightarrow> ('r \<Rightarrow> 'm \<Rightarrow> ('q, 'm) outcome) \<Rightarrow> ('q, 'm) outcome" where
  "then_do (Returned r m) f = f r m"
| "then_do (Blocked m) f = Blocked m"

subsection \<open>The interface \<open>IPeerConnection\<close>\<close>

text \<open>
  The manager holds its peer connections through pointers to the abstract class, calls
  them through virtual functions, and gets new ones from its own virtual function
  \<open>createPeerConnection\<close>. The functions of the manager below take these operations as
  a parameter: a \<open>transport\<close> gives, for a type of connection objects, the factory and
  the virtual functions the manager calls. A function that returns \<open>bool\<close> and changes
  the object gives back both.
\<close>

record 'pc transport =
  pc_create :: "string \<Rightarrow> 'pc option"
  pc_SendData :: "string \<Rightarrow> DataChannelMessage \<Rightarrow> 'pc \<Rightarrow> bool \<times> 'pc"
  pc_GetConnectionState :: "'pc \<Rightarrow> PeerConnectionState"
  pc_Close :: "'pc \<Rightarrow> 'pc"
  pc_CreateAnswer :: "'pc \<Rightarrow> bool \<times> 'pc"
  pc_SetRemoteDescription :: "string \<Rightarrow> string \<Rightarrow> 'pc \<Rightarrow> bool \<times> 'pc"
  pc_AddRemoteCandidate :: "string \<Rightarrow> string \<Rightarrow> int \<Rightarrow> 'pc \<Rightarrow> bool \<times> 'pc"

subsection \<open>The class \<open>LibwebrtcPeerConnectionImpl\<close> of the sources\<close>

text \<open>
  The object keeps a pointer \<open>rtc_peer_connection_\<close> to the connection of the library;
  \<open>rtc_peer_connection\<close> says that it is not null. The constructor leaves it null and
  \<open>init\<close> sets it to null. Every function tests it first. With a null pointer the
  functions do nothing and report failure; with a pointer \<open>Close\<close> passes the call on
  to the library (counted in \<open>rtc_close_calls\<close>), \<open>CreateAnswer\<close>,
  \<open>SetRemoteDescription\<close> and \<open>AddRemoteCandidate\<close> report success without calling the
  library, \<open>SendData\<close> returns false all the same, and \<open>GetConnectionState\<close> answers
  \<open>New\<close>.
\<close>

record LibwebrtcPeerConnectionImpl =
  rtc_peer_connection :: bool
  rtc_close_calls :: nat

definition createPeerConnection :: "string \<Rightarrow> LibwebrtcPeerConnectionImpl option" where
  "createPeerConnection peer_id = Some \<lparr>rtc_peer_connection = False, rtc_close_calls = 0\<rparr>"

definition CreateAnswer :: "LibwebrtcPeerConnectionImpl \<Rightarrow> bool \<times> LibwebrtcPeerConnectionImpl" where
  "CreateAnswer pc = (if \<not> rtc_peer_connection pc then (False, pc) else (True, pc))"

definition SetRemoteDescription ::
  "string \<Rightarrow> string \<Rightarrow> LibwebrtcPeerConnectionImpl \<Rightarrow> bool \<times> LibwebrtcPeerConnectionImpl" where
  "SetRemoteDescription sdp_type sdp_string pc =
     (if \<not> rtc_peer_connection pc then (False, pc) else (True, pc))"

definition AddRemoteCandidate ::
  "string \<Rightarrow> string \<Rightarrow> int \<Rightarrow> LibwebrtcPeerConnectionImpl \<Rightarrow> bool \<times> LibwebrtcPeerConnectionImpl" where
  "AddRemoteCandidate cand sdp_mid sdp_mline_index pc =
     (if \<not> rtc_peer_connection pc then (False, pc) else (True, pc))"

definition SendData ::
  "string \<Rightarrow> DataChannelMessage \<Rightarrow> LibwebrtcPeerConnectionImpl
     \<Rightarrow> bool \<times> LibwebrtcPeerConnectionImpl" where
  "SendData label data pc = (if \<not> rtc_peer_connection pc then (False, pc) else (False, pc))"

definition Close :: "LibwebrtcPeerConnectionImpl \<Rightarrow> LibwebrtcPeerConnectionImpl" where
  "Close pc =
     (if rtc_peer_connection pc then pc\<lparr>rtc_close_calls := Suc (rtc_close_calls pc)\<rparr> else pc)"

definition GetConnectionState :: "LibwebrtcPeerConnectionImpl \<Rightarrow> PeerConnectionState" where
  "GetConnectionState pc = (if \<not> rtc_peer_connection pc then Closed else New)"

definition libwebrtc :: "LibwebrtcPeerConnectionImpl transport" where
  "libwebrtc =
     \<lparr> pc_create = createPeerConnection, pc_SendData = SendData,
       pc_GetConnectionState = GetConnectionState, pc_Close = Close,
       pc_CreateAnswer = CreateAnswer, pc_SetRemoteDescription = SetRemoteDescription,
       pc_AddRemoteCandidate = AddRemoteCandidate \<rparr>"

subsection \<open>A connection that does what the interface documents\<close>

text \<open>
  No object of the class above ever reports \<open>Connected\<close> or takes a message. Where an
  example needs a connection that does, it uses the following second implementation of
  the interface, which is not part of the repository: it follows the comments of
  \<open>IPeerConnection\<close>. \<open>SendData\<close> queues the message and returns true exactly when the
  channel with that label is open; \<open>Close\<close>, \<open>CreateAnswer\<close>,
  \<open>SetRemoteDescription\<close> and \<open>AddRemoteCandidate\<close> record the request;
  \<open>GetConnectionState\<close> reads the state the object holds.
\<close>

datatype ChannelState = Opening | Open | ChannelClosed

record documented_pc =
  connection_state :: PeerConnectionState
  channels :: "(string \<times> ChannelState) list"
  sent :: "(string \<times> DataChannelMessage) list"
  remote_descriptions :: "(string \<times> string) list"
  remote_candidates :: "(string \<times> string \<times> int) list"
  answers_requested :: nat
  close_requested :: bool

definition channel_open :: "documented_pc \<Rightarrow> string \<Rightarrow> bool" where
  "channel_open pc label = (map_of (channels pc) label = Some Open)"

definition documented :: "documented_pc transport" where
  "documented =
     \<lparr> pc_create = (\<lambda>peer_id.
         Some \<lparr> connection_state = New, channels = [], sent = [], remote_descriptions = [],
                remote_candidates = [], answers_requested = 0, close_requested = False \<rparr>),
       pc_SendData = (\<lambda>label data pc.
         if channel_open pc label then (True, pc\<lparr>sent := sent pc @ [(label, data)]\<rparr>)
         else (False, pc)),
       pc_GetConnectionState = connection_state,
       pc_Close = (\<lambda>pc. pc\<lparr>close_requested := True\<rparr>),
       pc_CreateAnswer = (\<lambda>pc. (True, pc\<lparr>answers_requested := Suc (answers_requested pc)\<rparr>)),
       pc_SetRemoteDescription = (\<lambda>sdp_type sdp_string pc.
         (True, pc\<lparr>remote_descriptions := remote_descriptions pc @ [(sdp_type, sdp_string)]\<rparr>)),
       pc_AddRemoteCandidate = (\<lambda>cand sdp_mid sdp_mline_index pc.
         (True, pc\<lparr>remote_candidates :=
                     remote_candidates pc @ [(cand, sdp_mid, sdp_mline_index)]\<rparr>)) \<rparr>"

subsection \<open>\<open>std::map\<close> with string keys\<close>

text \<open>
  A \<open>std::map<std::string, V>\<close> is a list of pairs in key order. \<open>map_of\<close> is
  \<open>find\<close>/\<open>count\<close>, \<open>map_set\<close> is assignment through \<open>operator[]\<close> and keeps the key
  order, \<open>AList.delete\<close> is \<open>erase\<close>; a range-for loop runs through the list from left
  to right.
\<close>

fun map_set :: "string \<Rightarrow> 'v \<Rightarrow> (string \<times> 'v) list \<Rightarrow> (string \<times> 'v) list" where
  "map_set k v [] = [(k, v)]"
| "map_set k v ((k', v') # al) =
     (if k < k' then (k, v) # (k', v') # al
      else if k = k' then (k, v) # al
      else (k', v') # map_set k v al)"

subsection \<open>The manager's state\<close>

text \<open>
  \<open>mutex_locked\<close> says that \<open>mutex_\<close> is held. Calls that leave the manager are
  collected in lists: \<open>app_calls\<close>, the application handlers invoked and the calls of
  \<open>attemptReconnection\<close>; \<open>signaling_out\<close>, the messages handed to
  \<open>signalingClient_->sendSignal\<close>; \<open>released\<close>, the connection objects erased from
  \<open>peerConnections_\<close>, each as it was when it was erased. A handler slot is \<open>True\<close>
  when a handler is registered. A null \<open>unique_ptr\<close> in \<open>peerConnections_\<close> is \<open>None\<close>.
\<close>

datatype app_call =
    PeerConnectedCall string
  | PeerDisconnectedCall string string
  | PeerErrorCall string string
  | SignalingErrorCall string
  | ReconnectionAttempt string

record 'pc WebrtcManagerImpl =
  heartbeat_interval_ms :: int
  state :: AppState
  mutex_locked :: bool
  signalingClient :: bool
  peerConnections :: "(string \<times> 'pc option) list"
  onSignalingErrorHandler :: bool
  onPeerConnectedHandler :: bool
  onPeerDisconnectedHandler :: bool
  onPeerErrorHandler :: bool
  lastHeartbeatRxTime :: "(string \<times> int) list"
  reconnectionAttemptCount :: "(string \<times> int) list"
  signaling_out :: "SignalMessage list"
  app_calls :: "app_call list"
  released :: "(string \<times> 'pc option) list"

text \<open>
  \<open>std::lock_guard<std::mutex> lock(mutex_)\<close>: \<open>lock\<close> is its constructor, \<open>unlock\<close>
  its destructor at the end of the scope.
\<close>

definition lock :: "'pc WebrtcManagerImpl \<Rightarrow> (unit, 'pc WebrtcManagerImpl) outcome" where
  "lock m = (if mutex_locked m then Blocked m else Returned () (m\<lparr>mutex_locked := True\<rparr>))"

definition unlock :: "'pc WebrtcManagerImpl \<Rightarrow> 'pc WebrtcManagerImpl" where
  "unlock m = m\<lparr>mutex_locked := False\<rparr>"

text \<open>
  The helpers that call an application handler: each locks \<open>mutex_\<close>, copies the handler
  slot, unlocks, and calls the handler if there is one.
\<close>

definition invokeSignalingErrorCallback ::
  "string \<Rightarrow> 'pc WebrtcManagerImpl \<Rightarrow> (unit, 'pc WebrtcManagerImpl) outcome" where
  "invokeSignalingErrorCallback error_msg m =
     then_do (lock m) (\<lambda>u m1.
       let handler = onSignalingErrorHandler m1; m2 = unlock m1
       in Returned () (if handler then m2\<lparr>app_calls := app_calls m2 @ [SignalingErrorCall error_msg]\<rparr>
                       else m2))"

definition invokePeerConnectedCallback ::
  "string \<Rightarrow> 'pc WebrtcManagerImpl \<Rightarrow> (unit, 'pc WebrtcManagerImpl) outcome" where
  "invokePeerConnectedCallback peer_id m =
     then_do (lock m) (\<lambda>u m1.
       let handler = onPeerConnectedHandler m1; m2 = unlock m1
       in Returned () (if handler then m2\<lparr>app_calls := app_calls m2 @ [PeerConnectedCall peer_id]\<rparr>
                       else m2))"


definition invokePeerErrorCallback ::
  "string \<Rightarrow> string \<Rightarrow> 'pc WebrtcManagerImpl \<Rightarrow> (unit, 'pc WebrtcManagerImpl) outcome" where
  "invokePeerErrorCallback peer_id error_msg m =
     then_do (lock m) (\<lambda>u m1.
       let handler = onPeerErrorHandler m1; m2 = unlock m1
       in Returned ()
            (if handler then m2\<lparr>app_calls := app_calls m2 @ [PeerErrorCall peer_id error_msg]\<rparr>
             else m2))"

subsection \<open>Sending on data channels\<close>

text \<open>
  The loop of \<open>sendDataChannelMessageToAllPeers\<close> over \<open>peerConnections_\<close>, with the
  flag \<open>any_sent\<close> as it stands when the loop reaches the entry.
\<close>

fun send_to_all ::
  "'pc transport \<Rightarrow> string \<Rightarrow> DataChannelMessage \<Rightarrow> (string \<times> 'pc option) list \<Rightarrow> bool
     \<Rightarrow> bool \<times> (string \<times> 'pc option) list" where
  "send_to_all T channel_label data [] any_sent = (any_sent, [])"
| "send_to_all T channel_label data ((peer_id, None) # rest) any_sent =
     (let (r, rest') = send_to_all T channel_label data rest any_sent
      in (r, (peer_id, None) # rest'))"
| "send_to_all T channel_label data ((peer_id, Some pc) # rest) any_sent =
     (let (was_sent, pc') = pc_SendData T channel_label data pc;
          (r, rest') = send_to_all T channel_label data rest (if was_sent then True else any_sent)
      in (r, (peer_id, Some pc') # rest'))"

definition sendDataChannelMessageToAllPeers ::
  "'pc transport \<Rightarrow> string \<Rightarrow> DataChannelMessage \<Rightarrow> 'pc WebrtcManagerImpl
     \<Rightarrow> (bool, 'pc WebrtcManagerImpl) outcome" where
  "sendDataChannelMessageToAllPeers T channel_label data m =
     then_do (lock m) (\<lambda>u m1.
       if state m1 \<noteq> Running then Returned False (unlock m1)
       else (let (any_sent, pcs) = send_to_all T channel_label data (peerConnections m1) False
             in Returned any_sent (unlock (m1\<lparr>peerConnections := pcs\<rparr>))))"

text \<open>
  The number of connections in the index on which \<open>SendData\<close> reports success for this
  label and payload.
\<close>

definition successful_enqueues ::
  "'pc transport \<Rightarrow> string \<Rightarrow> DataChannelMessage \<Rightarrow> 'pc WebrtcManagerImpl \<Rightarrow> nat" where
  "successful_enqueues T channel_label data m =
     length (filter (\<lambda>(peer_id, c). case c of None \<Rightarrow> False
                                     | Some pc \<Rightarrow> fst (pc_SendData T channel_label data pc))
               (peerConnections m))"

subsection \<open>Creating and destroying peer connections\<close>

text \<open>
  \<open>getOrCreatePeerConnection\<close> returns a raw pointer into the map; here it returns
  whether that pointer is non-null, and the caller works on the entry of \<open>peer_id\<close>.
  Its caller holds the mutex.
\<close>

definition getOrCreatePeerConnection ::
  "'pc transport \<Rightarrow> string \<Rightarrow> 'pc WebrtcManagerImpl \<Rightarrow> bool \<times> 'pc WebrtcManagerImpl" where
  "getOrCreatePeerConnection T peer_id m =
     (case map_of (peerConnections m) peer_id of
        Some p \<Rightarrow> (p \<noteq> None, m)
      | None \<Rightarrow>
          (case pc_create T peer_id of
             None \<Rightarrow> (False, m)
           | Some pc \<Rightarrow> (True, m\<lparr>peerConnections := map_set peer_id (Some pc) (peerConnections m)\<rparr>)))"

text \<open>Applying an operation to the object that the pointer for \<open>peer_id\<close> designates.\<close>

definition on_pc :: "string \<Rightarrow> ('pc \<Rightarrow> 'pc) \<Rightarrow> 'pc WebrtcManagerImpl \<Rightarrow> 'pc WebrtcManagerImpl" where
  "on_pc peer_id f m =
     (case map_of (peerConnections m) peer_id of
        Some (Some pc) \<Rightarrow> m\<lparr>peerConnections := map_set peer_id (Some (f pc)) (peerConnections m)\<rparr>
      | _ \<Rightarrow> m)"


subsection \<open>Local descriptions\<close>

definition handlePeerLocalSdpGenerated ::
  "string \<Rightarrow> string \<Rightarrow> string \<Rightarrow> 'pc WebrtcManagerImpl \<Rightarrow> (unit, 'pc WebrtcManagerImpl) outcome" where
  "handlePeerLocalSdpGenerated peer_id sdp_type sdp_string m =
     then_do (lock m) (\<lambda>u m1.
       if map_of (peerConnections m1) peer_id = None then Returned () (unlock m1)
       else
         (let msg = (SignalMessage_ctor (if sdp_type = ''offer'' then OFFER else ANSWER)
                       ''client_dummy_id'' peer_id)\<lparr>sdp := Some sdp_string\<rparr>
          in if signalingClient m1
             then Returned () (unlock (m1\<lparr>signaling_out := signaling_out m1 @ [msg]\<rparr>))
             else then_do
                    (invokeSignalingErrorCallback ''Signaling client not available to send SDP'' m1)
                    (\<lambda>u m2. Returned () (unlock m2))))"

subsection \<open>Heartbeats\<close>




text \<open>\<open>handleReceivedHeartbeat\<close> takes no lock; its caller is meant to hold the mutex.\<close>

definition handleReceivedHeartbeat ::
  "int \<Rightarrow> string \<Rightarrow> 'pc WebrtcManagerImpl \<Rightarrow> 'pc WebrtcManagerImpl" where
  "handleReceivedHeartbeat now peer_id m =
     (if heartbeat_interval_ms m > 0
      then m\<lparr>lastHeartbeatRxTime := map_set peer_id now (lastHeartbeatRxTime m)\<rparr>
      else m)"

text \<open>
  A run of heartbeat receipts, each with the clock reading taken when it arrived, in
  arrival order.
\<close>

fun heartbeat_receipts ::
  "(int \<times> string) list \<Rightarrow> 'pc WebrtcManagerImpl \<Rightarrow> 'pc WebrtcManagerImpl" where
  "heartbeat_receipts [] m = m"
| "heartbeat_receipts ((now, peer_id) # rs) m =
     heartbeat_receipts rs (handleReceivedHeartbeat now peer_id m)"

text \<open>
  The body of \<open>attemptReconnection\<close> locks the mutex, prints its log line and does
  nothing else; the call is recorded in \<open>app_calls\<close>. No function of the manager calls it.
\<close>

definition attemptReconnection ::
  "string \<Rightarrow> 'pc WebrtcManagerImpl \<Rightarrow> (unit, 'pc WebrtcManagerImpl) outcome" where
  "attemptReconnection peer_id m =
     then_do (lock m) (\<lambda>u m1.
       Returned () (unlock (m1\<lparr>app_calls := app_calls m1 @ [ReconnectionAttempt peer_id]\<rparr>)))"






subsection \<open>Inbound signaling messages\<close>

text \<open>
  \<open>handleSignalingMessage\<close>. Its \<open>switch\<close> has one more arm, for a value \<open>HEARTBEAT\<close>
  that the enum does not have; no message can select it, and it is not part of the model.
\<close>

definition handleSignalingMessage ::
  "'pc transport \<Rightarrow> SignalMessage \<Rightarrow> 'pc WebrtcManagerImpl
     \<Rightarrow> (unit, 'pc WebrtcManagerImpl) outcome" where
  "handleSignalingMessage T message m =
     then_do (lock m) (\<lambda>u m0.
       let peer_id = msg_from message in
       case msg_type message of
         JOIN \<Rightarrow> Returned () (unlock m0)
       | LEAVE \<Rightarrow> Returned () (unlock (on_pc peer_id (pc_Close T) m0))
       | OFFER \<Rightarrow>
           (let (pc, m1) = getOrCreatePeerConnection T peer_id m0 in
            case (pc, sdp message) of
              (True, Some s) \<Rightarrow>
                Returned ()
                  (unlock
                     (on_pc peer_id (\<lambda>c. snd (pc_CreateAnswer T c))
                        (on_pc peer_id (\<lambda>c. snd (pc_SetRemoteDescription T ''offer'' s c)) m1)))
            | _ \<Rightarrow>
                then_do
                  (invokePeerErrorCallback peer_id ''Received OFFER with missing SDP or PC'' m1)
                  (\<lambda>u m2. Returned () (unlock m2)))
       | ANSWER \<Rightarrow>
           (let (pc, m1) = getOrCreatePeerConnection T peer_id m0 in
            case (pc, sdp message) of
              (True, Some s) \<Rightarrow>
                Returned ()
                  (unlock (on_pc peer_id (\<lambda>c. snd (pc_SetRemoteDescription T ''answer'' s c)) m1))
            | _ \<Rightarrow>
                then_do
                  (invokePeerErrorCallback peer_id ''Received ANSWER with missing SDP or PC'' m1)
                  (\<lambda>u m2. Returned () (unlock m2)))
       | CANDIDATE \<Rightarrow>
           (let (pc, m1) = getOrCreatePeerConnection T peer_id m0 in
            case (pc, candidate message, sdpMid message, sdpMlineIndex message) of
              (True, Some c, Some mid, Some idx) \<Rightarrow>
                Returned ()
                  (unlock (on_pc peer_id (\<lambda>x. snd (pc_AddRemoteCandidate T c mid idx x)) m1))
            | _ \<Rightarrow>
                then_do
                  (invokePeerErrorCallback peer_id
                     ''Received CANDIDATE with missing fields or PC'' m1)
                  (\<lambda>u m2. Returned () (unlock m2)))
       | UNKNOWN \<Rightarrow>
           then_do
             (invokeSignalingErrorCallback
                (''Received unknown signal message type from '' @ peer_id) m0)
             (\<lambda>u m2. Returned () (unlock m2)))"

section \<open>The session relay (signaling_server/src/session_manager.js)\<close>

subsection \<open>JavaScript values\<close>

text \<open>
  A message is what \<open>JSON.parse\<close> returned: a JavaScript value. Numbers are kept to the
  integers, and \<open>js_string\<close> prints them in plain decimal digits, as JavaScript does
  for an integer of magnitude below \<open>10\<^sup>2\<^sup>1\<close>; the exponent form that JavaScript
  uses from there on is not followed, and no statement below depends on the text printed
  for a number. \<open>truthy\<close> is the test made by \<open>if (v)\<close>, \<open>v ? a : b\<close> and \<open>v || w\<close>;
  \<open>get v k\<close> reads the property \<open>v.k\<close> of a value other than \<open>null\<close> and
  \<open>undefined\<close> (reading a property of those throws a \<open>TypeError\<close>, see
  \<open>routeMessage\<close>); \<open>js_string\<close> is the conversion done by a template literal.
\<close>

datatype jsval =
    Undefined
  | Null
  | Bool bool
  | Num int
  | Str string
  | Arr "jsval list"
  | Obj "(string \<times> jsval) list"

fun truthy :: "jsval \<Rightarrow> bool" where
  "truthy Undefined = False"
| "truthy Null = False"
| "truthy (Bool b) = b"
| "truthy (Num n) = (n \<noteq> 0)"
| "truthy (Str s) = (s \<noteq> [])"
| "truthy (Arr vs) = True"
| "truthy (Obj fs) = True"

fun get :: "jsval \<Rightarrow> string \<Rightarrow> jsval" where
  "get (Obj fs) k = (case map_of fs k of Some v \<Rightarrow> v | None \<Rightarrow> Undefined)"
| "get v k = Undefined"

fun js_string :: "jsval \<Rightarrow> string" and js_join :: "jsval list \<Rightarrow> string" where
  "js_string Undefined = ''undefined''"
| "js_string Null = ''null''"
| "js_string (Bool b) = (if b then ''true'' else ''false'')"
| "js_string (Num n) = to_string n"
| "js_string (Str s) = s"
| "js_string (Arr vs) = js_join vs"
| "js_string (Obj fs) = ''[object Object]''"
| "js_join [] = []"
| "js_join (v # vs) =
     (if v = Undefined \<or> v = Null then [] else js_string v)
     @ (if vs = [] then [] else '','' @ js_join vs)"

subsection \<open>The relay's state\<close>

text \<open>
  A \<open>WebSocket\<close> object is known by its identity, a number. A JavaScript \<open>Map\<close> keeps
  its entries in insertion order: \<open>map_of\<close> is \<open>get\<close>/\<open>has\<close>, \<open>AList.update\<close> is
  \<open>set\<close>, \<open>AList.delete\<close> is \<open>delete\<close>. The client id that \<open>auth.verifyToken\<close>
  took from the token is a string. \<open>socket_open w\<close> says that \<open>w.readyState\<close> is
  \<open>OPEN\<close>. Each function returns, next to the new state, the frames it wrote, in order,
  as pairs of the socket written to and the object sent.
\<close>

type_synonym ws = nat

record ClientInfo =
  clientId :: string
  targetId :: jsval

record relay =
  connectedClients :: "(ws \<times> ClientInfo) list"
  sessions :: "(string \<times> ws) list"
  socket_open :: "ws \<Rightarrow> bool"

definition sendMessage :: "relay \<Rightarrow> ws \<Rightarrow> jsval \<Rightarrow> (ws \<times> jsval) list" where
  "sendMessage r w message = (if socket_open r w then [(w, message)] else [])"

text \<open>\<open>sessions.get(k)\<close> for a key \<open>k\<close> that came out of a message: only a string can hit.\<close>

definition sessions_get :: "relay \<Rightarrow> jsval \<Rightarrow> ws option" where
  "sessions_get r k = (case k of Str s \<Rightarrow> map_of (sessions r) s | _ \<Rightarrow> None)"

definition addClient :: "ws \<Rightarrow> string \<Rightarrow> relay \<Rightarrow> relay" where
  "addClient w cid r =
     (if map_of (connectedClients r) w \<noteq> None then r
      else r\<lparr> connectedClients :=
                 AList.update w \<lparr>clientId = cid, targetId = Null\<rparr> (connectedClients r),
               sessions := AList.update cid w (sessions r) \<rparr>)"

text \<open>The loop over \<open>sessions.entries()\<close> in \<open>removeClient\<close>, up to its \<open>break\<close>.\<close>

fun find_session :: "ws \<Rightarrow> (string \<times> ws) list \<Rightarrow> string option" where
  "find_session w [] = None"
| "find_session w ((cid, clientWs) # rest) =
     (if clientWs = w then Some cid else find_session w rest)"

definition leave_notice :: "string \<Rightarrow> string \<Rightarrow> jsval" where
  "leave_notice from_id to_id =
     Obj [(''type'', Str ''leave''), (''from'', Str from_id), (''to'', Str to_id),
          (''reason'', Str ''Peer disconnected'')]"

text \<open>The \<open>connectedClients.forEach\<close> inside that loop.\<close>

fun notify_peers :: "relay \<Rightarrow> ClientInfo \<Rightarrow> (ws \<times> ClientInfo) list \<Rightarrow> (ws \<times> jsval) list" where
  "notify_peers r clientInfo [] = []"
| "notify_peers r clientInfo ((otherWs, otherClientInfo) # rest) =
     (if targetId otherClientInfo = Str (clientId clientInfo)
      then sendMessage r otherWs (leave_notice (clientId clientInfo) (clientId otherClientInfo))
      else [])
     @ notify_peers r clientInfo rest"

definition removeClient :: "ws \<Rightarrow> relay \<Rightarrow> relay \<times> (ws \<times> jsval) list" where
  "removeClient w r =
     (case map_of (connectedClients r) w of
        None \<Rightarrow> (r, [])
      | Some clientInfo \<Rightarrow>
          (let r1 = r\<lparr>connectedClients := AList.delete w (connectedClients r)\<rparr> in
           case find_session w (sessions r1) of
             None \<Rightarrow> (r1, [])
           | Some cid \<Rightarrow>
               (r1\<lparr>sessions := AList.delete cid (sessions r1)\<rparr>,
                notify_peers r1 clientInfo (connectedClients r1))))"

definition error_reply :: "string \<Rightarrow> string \<Rightarrow> jsval" where
  "error_reply to_id text =
     Obj [(''type'', Str ''error''), (''from'', Str ''server''), (''to'', Str to_id),
          (''message'', Str text)]"

definition set_targetId :: "ws \<Rightarrow> ClientInfo \<Rightarrow> jsval \<Rightarrow> relay \<Rightarrow> relay" where
  "set_targetId w info v r =
     r\<lparr>connectedClients := AList.update w (info\<lparr>targetId := v\<rparr>) (connectedClients r)\<rparr>"

text \<open>\<open>targetWs && connectedClients.has(targetWs)\<close>, for the result of \<open>sessions.get\<close>.\<close>

definition live_target :: "relay \<Rightarrow> jsval \<Rightarrow> ws option" where
  "live_target r k =
     (case sessions_get r k of
        None \<Rightarrow> None
      | Some targetWs \<Rightarrow> (if map_of (connectedClients r) targetWs \<noteq> None then Some targetWs else None))"

text \<open>
  \<open>routeMessage\<close>. \<open>None\<close> is the \<open>TypeError\<close> thrown by \<open>message.from\<close> when the
  message is \<open>null\<close>; the caller in server.js catches it.
\<close>

definition routeMessage :: "ws \<Rightarrow> jsval \<Rightarrow> relay \<Rightarrow> (relay \<times> (ws \<times> jsval) list) option" where
  "routeMessage senderWs message r =
     (case map_of (connectedClients r) senderWs of
        None \<Rightarrow> Some (r, [])
      | Some senderInfo \<Rightarrow>
          if message = Null \<or> message = Undefined then None
          else if get message ''from'' \<noteq> Str (clientId senderInfo) then Some (r, [])
          else if get message ''type'' = Str ''join'' then
            (let targetVehicleId =
                   (if truthy (get message ''data'')
                    then get (get message ''data'') ''targetVehicleId'' else Null)
             in if \<not> truthy targetVehicleId then Some (r, [])
                else
                  (let r1 = set_targetId senderWs senderInfo targetVehicleId r in
                   case live_target r1 targetVehicleId of
                     Some targetWs \<Rightarrow>
                       Some (r1, sendMessage r1 targetWs
                         (Obj [(''type'', Str ''join_request''),
                               (''from'', Str (clientId senderInfo)),
                               (''to'', targetVehicleId),
                               (''data'', Obj [(''clientId'', Str (clientId senderInfo))])]))
                   | None \<Rightarrow>
                       Some (set_targetId senderWs senderInfo Null r1,
                             sendMessage r1 senderWs
                               (error_reply (clientId senderInfo)
                                  (''Target vehicle '' @ js_string targetVehicleId
                                     @ '' not found or offline.'')))))
          else if get message ''type'' = Str ''leave'' then
            (let tgt = targetId senderInfo;
                 out =
                   (if truthy tgt then
                      (case live_target r tgt of
                         Some targetWs \<Rightarrow>
                           sendMessage r targetWs
                             (Obj [(''type'', Str ''leave''),
                                   (''from'', Str (clientId senderInfo)),
                                   (''to'', tgt),
                                   (''reason'',
                                    (if truthy (get message ''reason'') then get message ''reason''
                                     else Str ''Peer left session''))])
                       | None \<Rightarrow> [])
                    else [])
             in Some (set_targetId senderWs senderInfo Null r, out))
          else if get message ''type'' \<in> {Str ''offer'', Str ''answer'', Str ''candidate''} then
            (let recipientId = get message ''to'' in
             if \<not> truthy recipientId then Some (r, [])
             else
               (case live_target r recipientId of
                  Some recipientWs \<Rightarrow> Some (r, sendMessage r recipientWs message)
                | None \<Rightarrow>
                    Some (r, sendMessage r senderWs
                      (error_reply (clientId senderInfo)
                         (''Recipient '' @ js_string recipientId @ '' not found or offline.'')))))
          else
            Some (r, sendMessage r senderWs
              (error_reply (clientId senderInfo)
                 (''Unknown message type '' @ [CHR 0x27] @ js_string (get message ''type'')
                    @ [CHR 0x27] @ ''.''))))"

section \<open>States used in the examples\<close>

text \<open>An empty relay, and a relay with a vehicle \<open>V\<close> and a cockpit \<open>C\<close> that has joined \<open>V\<close>.\<close>

definition relay0 :: relay where
  "relay0 = \<lparr>connectedClients = [], sessions = [], socket_open = (\<lambda>w. True)\<rparr>"

definition relay_pair :: relay where
  "relay_pair =
     \<lparr> connectedClients =
         [(1, \<lparr>clientId = ''V'', targetId = Null\<rparr>),
          (2, \<lparr>clientId = ''C'', targetId = Str ''V''\<rparr>)],
       sessions = [(''V'', 1), (''C'', 2)],
       socket_open = (\<lambda>w. True) \<rparr>"

text \<open>
  A running manager with a heartbeat period of one second, the mutex free, every handler
  registered and no peer.
\<close>

definition manager0 :: "'pc WebrtcManagerImpl" where
  "manager0 =
     \<lparr> heartbeat_interval_ms = 1000, state = Running, mutex_locked = False,
       signalingClient = True, peerConnections = [], onSignalingErrorHandler = True,
       onPeerConnectedHandler = True, onPeerDisconnectedHandler = True,
       onPeerErrorHandler = True, lastHeartbeatRxTime = [], reconnectionAttemptCount = [],
       signaling_out = [], app_calls = [], released = [] \<rparr>"

text \<open>
  The same manager holding, for the peer \<open>V\<close>, an object of the class of the sources as
  \<open>createPeerConnection\<close> makes it.
\<close>

definition manager_libwebrtc :: "LibwebrtcPeerConnectionImpl WebrtcManagerImpl" where
  "manager_libwebrtc =
     manager0\<lparr> peerConnections :=
                 [(''V'', Some \<lparr>rtc_peer_connection = False, rtc_close_calls = 0\<rparr>)] \<rparr>"

text \<open>
  A connection of the documented kind that reports \<open>Connected\<close> and whose \<open>telemetry\<close>
  channel is open; the manager with that connection for the peer \<open>V\<close>, whose last
  heartbeat arrived at clock reading 0 and which has used no reconnection attempt; and the
  manager with such a connection for each of \<open>V\<close> and \<open>W\<close>.
\<close>

definition pc_connected :: documented_pc where
  "pc_connected =
     \<lparr> connection_state = Connected, channels = [(''telemetry'', Open)], sent = [],
       remote_descriptions = [], remote_candidates = [], answers_requested = 0,
       close_requested = False \<rparr>"

definition manager_V :: "documented_pc WebrtcManagerImpl" where
  "manager_V =
     manager0\<lparr> peerConnections := [(''V'', Some pc_connected)],
               lastHeartbeatRxTime := [(''V'', 0)],
               reconnectionAttemptCount := [(''V'', 0)] \<rparr>"

definition manager_VW :: "documented_pc WebrtcManagerImpl" where
  "manager_VW =
     manager0\<lparr> peerConnections := [(''V'', Some pc_connected), (''W'', Some pc_connected)] \<rparr>"


section \<open>Properties of the signaling-message parser and printer\<close>

subsection \<open>Facts about \<open>find\<close> and \<open>substr\<close>\<close>

lemma find_first_bound: "find_first pat s = Some i \<Longrightarrow> i + length pat \<le> length s"
proof (induction s arbitrary: i)
  case Nil
  then show ?case by (simp split: if_splits)
next
  case (Cons c cs)
  show ?case
  proof (cases "prefix pat (c # cs)")
    case True
    with Cons.prems have "i = 0" by simp
    with prefix_length_le [OF True] show ?thesis by simp
  next
    case False
    with Cons.prems obtain j where j: "find_first pat cs = Some j" "i = Suc j" by auto
    from Cons.IH [OF j(1)] j(2) show ?thesis by simp
  qed
qed

lemma find_first_None_iff: "find_first pat s = None \<longleftrightarrow> \<not> sublist pat s"
  by (induction s) (auto simp: sublist_Cons_right)

lemma str_find_bound:
  assumes "str_find data pat pos = Some p"
  shows "pos \<le> p \<and> p + length pat \<le> length data"
proof -
  from assms obtain i where i: "find_first pat (drop pos data) = Some i" "p = pos + i"
    and le: "pos \<le> length data"
    by (auto simp: str_find_def split: if_splits)
  from find_first_bound [OF i(1)] i(2) le show ?thesis by simp
qed

lemma str_find_0_None_iff: "str_find data pat 0 = None \<longleftrightarrow> \<not> sublist pat data"
  by (simp add: str_find_def find_first_None_iff)

lemma field_value_no_throw:
  assumes "off \<le> length key"
  shows "\<exists>r. field_value data key off = Some r"
proof (cases "str_find data key 0")
  case None
  then show ?thesis by (simp add: field_value_def)
next
  case (Some p)
  from str_find_bound [OF Some] assms have le: "p + off \<le> length data" by simp
  then show ?thesis
    by (simp add: field_value_def Some Let_def substr_def split: option.split)
qed

lemma field_value_absent: "\<not> sublist key data \<Longrightarrow> field_value data key off = Some None"
  by (simp add: field_value_def str_find_0_None_iff [symmetric])


lemma find_first_skip:
  assumes "CHR 0x22 \<notin> set v"
  shows "find_first (CHR 0x22 # pat) (v @ rest) =
           map_option (\<lambda>i. length v + i) (find_first (CHR 0x22 # pat) rest)"
  using assms
proof (induction v)
  case Nil
  then show ?case by (simp add: option.map_ident)
next
  case (Cons c v)
  then show ?case by (auto simp: option.map_comp comp_def)
qed

lemma find_quote:
  assumes "CHR 0x22 \<notin> set v"
  shows "find_first [CHR 0x22] (v @ CHR 0x22 # rest) = Some (length v)"
  using find_first_skip [OF assms, of "[]" "CHR 0x22 # rest"] by simp

lemma field_value_found:
  assumes key: "find_first key (pre @ key @ v @ CHR 0x22 # rest) = Some (length pre)"
    and v: "CHR 0x22 \<notin> set v"
    and off: "off = length key"
  shows "field_value (pre @ key @ v @ CHR 0x22 # rest) key off = Some (Some v)"
proof -
  let ?data = "pre @ key @ v @ CHR 0x22 # rest"
  have k: "str_find ?data key 0 = Some (length pre)"
    using key by (simp add: str_find_def)
  have "drop (length pre + length key) ?data = v @ CHR 0x22 # rest" by simp
  then have q: "str_find ?data [CHR 0x22] (length pre + length key) =
      Some (length pre + length key + length v)"
    using find_quote [OF v, of rest] by (simp add: str_find_def)
  have s: "substr ?data (length pre + length key) (length v) = Some v"
    by (simp add: substr_def)
  show ?thesis
    using k q s by (simp add: field_value_def Let_def off)
qed

lemma to_key_not_in_from:
  assumes "CHR 0x22 \<notin> set F"
  shows \<open>\<not> prefix ''to":"'' (F @ ''",'' @ X)\<close>
proof (cases F)
  case Nil
  then show ?thesis by simp
next
  case (Cons a F1)
  show ?thesis
  proof (cases F1)
    case Nil
    with Cons show ?thesis by simp
  next
    case (Cons b F2)
    with \<open>F = a # F1\<close> assms show ?thesis by (cases F2) auto
  qed
qed

lemma type_key_pos:
  \<open>find_first ''"type":"'' (''{'' @ ''"type":"'' @ X) = Some (length ''{'')\<close>
  by simp

lemma from_key_pos:
  assumes "t \<in> {JOIN, LEAVE, OFFER, ANSWER, CANDIDATE}"
  shows \<open>find_first ''"from":"'' ((''{"type":"'' @ TypeToString t @ ''",'') @ ''"from":"'' @ X)
           = Some (length (''{"type":"'' @ TypeToString t @ ''",''))\<close>
  using assms by (auto simp: TypeToString_def typeToStringMap_def)

lemma to_key_pos:
  assumes "t \<in> {JOIN, LEAVE, OFFER, ANSWER, CANDIDATE}" and "CHR 0x22 \<notin> set F"
  shows \<open>find_first ''"to":"''
            ((''{"type":"'' @ TypeToString t @ ''","from":"'' @ F @ ''",'') @ ''"to":"'' @ X)
           = Some (length (''{"type":"'' @ TypeToString t @ ''","from":"'' @ F @ ''",''))\<close>
proof -
  have tail: \<open>find_first ''"to":"'' (''",'' @ ''"to":"'' @ X) = Some 2\<close> by simp
  have F: \<open>find_first ''"to":"'' (F @ ''",'' @ ''"to":"'' @ X) = Some (length F + 2)\<close>
    using find_first_skip [OF assms(2), of \<open>''to":"''\<close> \<open>''",'' @ ''"to":"'' @ X\<close>] tail
    by simp
  have nq: \<open>\<not> prefix ''to":"'' (F @ ''",'' @ ''"to":"'' @ X)\<close>
    using to_key_not_in_from [OF assms(2)] by simp
  show ?thesis
    using assms(1) F nq by (auto simp: TypeToString_def typeToStringMap_def)
qed

lemma StringToType_TypeToString:
  "t \<in> {JOIN, LEAVE, OFFER, ANSWER, CANDIDATE} \<Longrightarrow> StringToType (TypeToString t) = t"
  by (auto simp: StringToType_def TypeToString_def typeToStringMap_def stringToTypeMap_def)

lemma TypeToString_no_quote:
  "CHR 0x22 \<notin> set (TypeToString t)"
  by (cases t) (simp_all add: TypeToString_def typeToStringMap_def)

subsection \<open>Round trip of the routing fields\<close>

text \<open>
  Claim C9. For every message \<open>m\<close> whose type is one of \<open>JOIN\<close>, \<open>LEAVE\<close>, \<open>OFFER\<close>,
  \<open>ANSWER\<close>, \<open>CANDIDATE\<close> and whose \<open>from\<close> and \<open>to\<close> contain no double quote,
  parsing the printed message succeeds and gives back the type, \<open>from\<close> and \<open>to\<close> of
  \<open>m\<close>, whatever the optional payload fields hold.
\<close>

theorem roundtrip_routing_fields:
  assumes t: "msg_type m \<in> {JOIN, LEAVE, OFFER, ANSWER, CANDIDATE}"
    and f: "CHR 0x22 \<notin> set (msg_from m)"
    and d: "CHR 0x22 \<notin> set (msg_to m)"
  shows "\<exists>m'. DeserializeSignalMessage (SerializeSignalMessage m) = Some m'
           \<and> msg_type m' = msg_type m \<and> msg_from m' = msg_from m \<and> msg_to m' = msg_to m"
proof -
  define T where "T = TypeToString (msg_type m)"
  define rest where \<open>rest =
     (case sdp m of None \<Rightarrow> '''' | Some s \<Rightarrow> '',"sdp":"'' @ s @ ''"'')
     @ candidate_part m
     @ (case reason m of None \<Rightarrow> '''' | Some r \<Rightarrow> '',"reason":"'' @ r @ ''"'')
     @ ''}''\<close>
  let ?data = "SerializeSignalMessage m"
  have e1: \<open>?data = ''{'' @ ''"type":"'' @ T @ CHR 0x22 #
       ('','' @ ''"from":"'' @ msg_from m @ ''",'' @ ''"to":"'' @ msg_to m @ ''"'' @ rest)\<close>
    by (simp add: SerializeSignalMessage_def T_def rest_def)
  have e2: \<open>?data = (''{"type":"'' @ T @ ''",'') @ ''"from":"'' @ msg_from m @ CHR 0x22 #
       ('','' @ ''"to":"'' @ msg_to m @ ''"'' @ rest)\<close>
    by (simp add: SerializeSignalMessage_def T_def rest_def)
  have e3: \<open>?data = (''{"type":"'' @ T @ ''","from":"'' @ msg_from m @ ''",'') @ ''"to":"''
       @ msg_to m @ CHR 0x22 # rest\<close>
    by (simp add: SerializeSignalMessage_def T_def rest_def)
  have v1: \<open>field_value ?data ''"type":"'' 8 = Some (Some T)\<close>
    unfolding e1
  proof (rule field_value_found)
    show \<open>find_first ''"type":"'' (''{'' @ ''"type":"'' @ T @ CHR 0x22 #
       ('','' @ ''"from":"'' @ msg_from m @ ''",'' @ ''"to":"'' @ msg_to m @ ''"'' @ rest))
       = Some (length ''{'')\<close>
      by (rule type_key_pos)
    show "CHR 0x22 \<notin> set T"
      unfolding T_def by (rule TypeToString_no_quote)
    show \<open>8 = length ''"type":"''\<close> by simp
  qed
  have v2: \<open>field_value ?data ''"from":"'' 8 = Some (Some (msg_from m))\<close>
    unfolding e2
  proof (rule field_value_found)
    show \<open>find_first ''"from":"'' ((''{"type":"'' @ T @ ''",'') @ ''"from":"'' @ msg_from m
       @ CHR 0x22 # ('','' @ ''"to":"'' @ msg_to m @ ''"'' @ rest))
       = Some (length (''{"type":"'' @ T @ ''",''))\<close>
      unfolding T_def by (rule from_key_pos [OF t])
    show "CHR 0x22 \<notin> set (msg_from m)" by (rule f)
    show \<open>8 = length ''"from":"''\<close> by simp
  qed
  have v3: \<open>field_value ?data ''"to":"'' 6 = Some (Some (msg_to m))\<close>
    unfolding e3
  proof (rule field_value_found)
    show \<open>find_first ''"to":"'' ((''{"type":"'' @ T @ ''","from":"'' @ msg_from m @ ''",'')
       @ ''"to":"'' @ msg_to m @ CHR 0x22 # rest)
       = Some (length (''{"type":"'' @ T @ ''","from":"'' @ msg_from m @ ''",''))\<close>
      unfolding T_def by (rule to_key_pos [OF t f])
    show "CHR 0x22 \<notin> set (msg_to m)" by (rule d)
    show \<open>6 = length ''"to":"''\<close> by simp
  qed
  show ?thesis
    using StringToType_TypeToString [OF t]
    by (simp add: DeserializeSignalMessage_def v1 v2 v3 T_def SignalMessage_ctor_def)
qed

theorem roundtrip_routing_fields_witness:
  "\<exists>m'. DeserializeSignalMessage
           (SerializeSignalMessage ((SignalMessage_ctor OFFER ''cockpit'' ''vehicle'')
              \<lparr>sdp := Some ''v=0''\<rparr>)) = Some m'
        \<and> msg_type m' = OFFER \<and> msg_from m' = ''cockpit'' \<and> msg_to m' = ''vehicle''"
  using roundtrip_routing_fields
    [of "(SignalMessage_ctor OFFER ''cockpit'' ''vehicle'')\<lparr>sdp := Some ''v=0''\<rparr>"]
  by (simp add: SignalMessage_ctor_def)

subsection \<open>The parser never rejects\<close>

text \<open>
  Claim C10. For every input string the parser returns a message: the \<open>nullopt\<close> branch
  needs an exception, and \<open>substr\<close>, the only call that can throw, is always called
  with a start inside the string. When the text \<open>"type":"\<close> does not occur the type is
  \<open>UNKNOWN\<close>; when \<open>"from":"\<close> or \<open>"to":"\<close> does not occur the field is empty.
\<close>

theorem DeserializeSignalMessage_never_rejects:
  \<open>\<exists>m. DeserializeSignalMessage data = Some m
      \<and> (\<not> sublist ''"type":"'' data \<longrightarrow> msg_type m = UNKNOWN)
      \<and> (\<not> sublist ''"from":"'' data \<longrightarrow> msg_from m = '''')
      \<and> (\<not> sublist ''"to":"'' data \<longrightarrow> msg_to m = '''')\<close>
proof -
  obtain t where t: \<open>field_value data ''"type":"'' 8 = Some t\<close>
    using field_value_no_throw [of 8 \<open>''"type":"''\<close> data] by auto
  obtain f where f: \<open>field_value data ''"from":"'' 8 = Some f\<close>
    using field_value_no_throw [of 8 \<open>''"from":"''\<close> data] by auto
  obtain d where d: \<open>field_value data ''"to":"'' 6 = Some d\<close>
    using field_value_no_throw [of 6 \<open>''"to":"''\<close> data] by auto
  have t0: \<open>\<not> sublist ''"type":"'' data \<Longrightarrow> t = None\<close>
    using field_value_absent [of \<open>''"type":"''\<close> data 8] t by simp
  have f0: \<open>\<not> sublist ''"from":"'' data \<Longrightarrow> f = None\<close>
    using field_value_absent [of \<open>''"from":"''\<close> data 8] f by simp
  have d0: \<open>\<not> sublist ''"to":"'' data \<Longrightarrow> d = None\<close>
    using field_value_absent [of \<open>''"to":"''\<close> data 6] d by simp
  show ?thesis
    using t0 f0 d0
    by (auto simp: DeserializeSignalMessage_def t f d SignalMessage_ctor_def Let_def
        split: option.split)
qed

theorem DeserializeSignalMessage_never_rejects_witness:
  \<open>\<exists>m. DeserializeSignalMessage ''{"to":"B",}'' = Some m
      \<and> msg_type m = UNKNOWN \<and> msg_from m = '''' \<and> msg_to m = ''B''\<close>
proof -
  have a: \<open>\<not> sublist ''"type":"'' ''{"to":"B",}''\<close> by code_simp
  have b: \<open>\<not> sublist ''"from":"'' ''{"to":"B",}''\<close> by code_simp
  have c: \<open>DeserializeSignalMessage ''{"to":"B",}'' = Some (SignalMessage_ctor UNKNOWN '''' ''B'')\<close>
    by code_simp
  from DeserializeSignalMessage_never_rejects [of \<open>''{"to":"B",}''\<close>] a b c
  show ?thesis by (simp add: SignalMessage_ctor_def)
qed

subsection \<open>Type tags\<close>

lemma DeserializeSignalMessage_type:
  assumes key: \<open>find_first ''"type":"'' (pre @ ''"type":"'' @ tag @ CHR 0x22 # rest) = Some (length pre)\<close>
    and tag: "CHR 0x22 \<notin> set tag"
  shows \<open>\<exists>msg. DeserializeSignalMessage (pre @ ''"type":"'' @ tag @ CHR 0x22 # rest) = Some msg
            \<and> msg_type msg = StringToType tag\<close>
proof -
  let ?data = \<open>pre @ ''"type":"'' @ tag @ CHR 0x22 # rest\<close>
  have t: \<open>field_value ?data ''"type":"'' 8 = Some (Some tag)\<close>
    by (rule field_value_found [OF key tag]) simp
  obtain f where f: \<open>field_value ?data ''"from":"'' 8 = Some f\<close>
    using field_value_no_throw [of 8 \<open>''"from":"''\<close> ?data] by auto
  obtain d where d: \<open>field_value ?data ''"to":"'' 6 = Some d\<close>
    using field_value_no_throw [of 6 \<open>''"to":"''\<close> ?data] by auto
  show ?thesis
    unfolding DeserializeSignalMessage_def Let_def t f d
    by (simp add: SignalMessage_ctor_def split: option.split)
qed

text \<open>
  Claim C4, as the code has it. Take a frame in which the text \<open>"type":"\<close> occurs, its
  first occurrence being followed by a tag without double quotes and a closing double
  quote (so: written without blanks around the colon). \<open>DeserializeSignalMessage\<close>
  returns a message for it, whose type is \<open>StringToType\<close> of the tag: \<open>JOIN\<close>, \<open>LEAVE\<close>,
  \<open>OFFER\<close>, \<open>ANSWER\<close> and \<open>CANDIDATE\<close> for the tags \<open>join\<close>, \<open>leave\<close>, \<open>offer\<close>,
  \<open>answer\<close> and \<open>candidate\<close>, and \<open>UNKNOWN\<close> for the tags \<open>join_request\<close> and \<open>error\<close>,
  for which \<open>SignalMessage::Type\<close> has no kind.
\<close>

theorem type_tag_decoded:
  assumes key: \<open>find_first ''"type":"'' (pre @ ''"type":"'' @ tag @ CHR 0x22 # rest) = Some (length pre)\<close>
    and tag: "CHR 0x22 \<notin> set tag"
  shows \<open>\<exists>msg. DeserializeSignalMessage (pre @ ''"type":"'' @ tag @ CHR 0x22 # rest) = Some msg
            \<and> msg_type msg = StringToType tag
            \<and> (tag = ''join'' \<longrightarrow> msg_type msg = JOIN)
            \<and> (tag = ''leave'' \<longrightarrow> msg_type msg = LEAVE)
            \<and> (tag = ''offer'' \<longrightarrow> msg_type msg = OFFER)
            \<and> (tag = ''answer'' \<longrightarrow> msg_type msg = ANSWER)
            \<and> (tag = ''candidate'' \<longrightarrow> msg_type msg = CANDIDATE)
            \<and> (tag = ''join_request'' \<longrightarrow> msg_type msg = UNKNOWN)
            \<and> (tag = ''error'' \<longrightarrow> msg_type msg = UNKNOWN)\<close>
proof -
  from DeserializeSignalMessage_type [OF key tag] obtain msg
    where msg: \<open>DeserializeSignalMessage (pre @ ''"type":"'' @ tag @ CHR 0x22 # rest) = Some msg\<close>
      and ty: "msg_type msg = StringToType tag"
    by blast
  have "StringToType ''join'' = JOIN" "StringToType ''leave'' = LEAVE"
    "StringToType ''offer'' = OFFER" "StringToType ''answer'' = ANSWER"
    "StringToType ''candidate'' = CANDIDATE" "StringToType ''join_request'' = UNKNOWN"
    "StringToType ''error'' = UNKNOWN"
    by (simp_all add: StringToType_def stringToTypeMap_def)
  with msg ty show ?thesis by auto
qed

theorem type_tag_decoded_witness:
  \<open>map_option msg_type (DeserializeSignalMessage ''{"type":"join","from":"C","to":"V"}'') = Some JOIN
   \<and> map_option msg_type (DeserializeSignalMessage ''{"type":"leave","from":"C","to":"V"}'') = Some LEAVE
   \<and> map_option msg_type (DeserializeSignalMessage ''{"type":"offer","from":"C","to":"V"}'') = Some OFFER
   \<and> map_option msg_type (DeserializeSignalMessage ''{"type":"answer","from":"C","to":"V"}'') = Some ANSWER
   \<and> map_option msg_type (DeserializeSignalMessage ''{"type":"candidate","from":"C","to":"V"}'')
       = Some CANDIDATE
   \<and> map_option msg_type (DeserializeSignalMessage ''{"type":"join_request","from":"C","to":"V"}'')
       = Some UNKNOWN
   \<and> map_option msg_type (DeserializeSignalMessage ''{"type":"error","from":"C","to":"V"}'')
       = Some UNKNOWN\<close>
proof -
  let ?rest = \<open>'',"from":"C","to":"V"}''\<close>
  have 1: \<open>map_option msg_type (DeserializeSignalMessage ''{"type":"join","from":"C","to":"V"}'')
             = Some JOIN\<close>
    using type_tag_decoded [of \<open>''{''\<close> \<open>''join''\<close> ?rest] by auto
  have 2: \<open>map_option msg_type (DeserializeSignalMessage ''{"type":"leave","from":"C","to":"V"}'')
             = Some LEAVE\<close>
    using type_tag_decoded [of \<open>''{''\<close> \<open>''leave''\<close> ?rest] by auto
  have 3: \<open>map_option msg_type (DeserializeSignalMessage ''{"type":"offer","from":"C","to":"V"}'')
             = Some OFFER\<close>
    using type_tag_decoded [of \<open>''{''\<close> \<open>''offer''\<close> ?rest] by auto
  have 4: \<open>map_option msg_type (DeserializeSignalMessage ''{"type":"answer","from":"C","to":"V"}'')
             = Some ANSWER\<close>
    using type_tag_decoded [of \<open>''{''\<close> \<open>''answer''\<close> ?rest] by auto
  have 5: \<open>map_option msg_type (DeserializeSignalMessage ''{"type":"candidate","from":"C","to":"V"}'')
             = Some CANDIDATE\<close>
    using type_tag_decoded [of \<open>''{''\<close> \<open>''candidate''\<close> ?rest] by auto
  have 6: \<open>map_option msg_type
             (DeserializeSignalMessage ''{"type":"join_request","from":"C","to":"V"}'')
             = Some UNKNOWN\<close>
    using type_tag_decoded [of \<open>''{''\<close> \<open>''join_request''\<close> ?rest] by auto
  have 7: \<open>map_option msg_type (DeserializeSignalMessage ''{"type":"error","from":"C","to":"V"}'')
             = Some UNKNOWN\<close>
    using type_tag_decoded [of \<open>''{''\<close> \<open>''error''\<close> ?rest] by auto
  from 1 2 3 4 5 6 7 show ?thesis by blast
qed

text \<open>
  The two frames that the relay writes with the tags \<open>join_request\<close> and \<open>error\<close> (see
  \<open>routeMessage\<close>) are both read as \<open>UNKNOWN\<close>: the tag does not reach a kind of its own.
\<close>

theorem relay_tags_unknown_counterexample:
  \<open>map_option msg_type
      (DeserializeSignalMessage ''{"type":"join_request","from":"C","to":"V","data":{"clientId":"C"}}'')
     = Some UNKNOWN
   \<and> map_option msg_type
      (DeserializeSignalMessage
         ''{"type":"error","from":"server","to":"C","message":"Target vehicle V not found or offline."}'')
     = Some UNKNOWN\<close>
  by (simp add: DeserializeSignalMessage_def field_value_def str_find_def substr_def
      StringToType_def stringToTypeMap_def SignalMessage_ctor_def)

section \<open>Properties of the session relay\<close>

lemma sendMessage_cases:
  "(w', m) \<in> set (sendMessage r w message) \<Longrightarrow> w' = w \<and> m = message"
  by (auto simp: sendMessage_def split: if_splits)

lemma notify_peers_filter:
  "notify_peers r info cs =
     map (\<lambda>(otherWs, other). (otherWs, leave_notice (clientId info) (clientId other)))
       (filter (\<lambda>(otherWs, other). targetId other = Str (clientId info) \<and> socket_open r otherWs) cs)"
  by (induction cs) (auto simp: sendMessage_def split: if_splits)

lemma find_session_Some:
  "find_session w ss = Some cid \<Longrightarrow> (cid, w) \<in> set ss"
  by (induction ss) (auto split: if_splits)

subsection \<open>The sender's identity\<close>

text \<open>
  Claim C2. Let a link be registered with the identity \<open>clientId senderInfo\<close>. A message
  whose \<open>from\<close> is anything else changes nothing and writes nothing (a \<open>null\<close>
  message makes \<open>routeMessage\<close> throw before it has done anything). Hence every frame
  that \<open>routeMessage\<close> writes carries the sender's identity in \<open>from\<close>, except the
  error replies, which go back to the sender itself and carry \<open>server\<close>.
\<close>

theorem routeMessage_from_authenticated:
  assumes auth: "map_of (connectedClients r) senderWs = Some senderInfo"
  shows "(get message ''from'' \<noteq> Str (clientId senderInfo) \<longrightarrow>
            routeMessage senderWs message r
              = (if message = Null \<or> message = Undefined then None else Some (r, [])))
       \<and> (\<forall>r' out w m. routeMessage senderWs message r = Some (r', out) \<longrightarrow> (w, m) \<in> set out \<longrightarrow>
            get m ''from'' = Str (clientId senderInfo)
            \<or> (w = senderWs \<and> get m ''type'' = Str ''error'' \<and> get m ''from'' = Str ''server''))"
proof (intro conjI allI impI)
  assume "get message ''from'' \<noteq> Str (clientId senderInfo)"
  then show "routeMessage senderWs message r
              = (if message = Null \<or> message = Undefined then None else Some (r, []))"
    using auth by (simp add: routeMessage_def)
next
  fix r' out w m
  assume run: "routeMessage senderWs message r = Some (r', out)" and mem: "(w, m) \<in> set out"
  show "get m ''from'' = Str (clientId senderInfo)
        \<or> (w = senderWs \<and> get m ''type'' = Str ''error'' \<and> get m ''from'' = Str ''server'')"
    using run mem auth
    by (auto simp: routeMessage_def Let_def error_reply_def
        split: if_splits option.splits dest!: sendMessage_cases)
qed

theorem routeMessage_from_authenticated_witness:
  "map_of (connectedClients relay_pair) 2 = Some \<lparr>clientId = ''C'', targetId = Str ''V''\<rparr>
   \<and> routeMessage 2 (Obj [(''type'', Str ''offer''), (''from'', Str ''X''), (''to'', Str ''V'')])
         relay_pair = Some (relay_pair, [])
   \<and> routeMessage 2 (Obj [(''type'', Str ''offer''), (''from'', Str ''C''), (''to'', Str ''V'')])
         relay_pair
       = Some (relay_pair,
           [(1, Obj [(''type'', Str ''offer''), (''from'', Str ''C''), (''to'', Str ''V'')])])"
proof -
  have auth: "map_of (connectedClients relay_pair) 2 = Some \<lparr>clientId = ''C'', targetId = Str ''V''\<rparr>"
    by (simp add: relay_pair_def)
  have spoofed: "get (Obj [(''type'', Str ''offer''), (''from'', Str ''X''), (''to'', Str ''V'')]) ''from''
      \<noteq> Str (clientId \<lparr>clientId = ''C'', targetId = Str ''V''\<rparr>)"
    by simp
  have forwarded:
    "routeMessage 2 (Obj [(''type'', Str ''offer''), (''from'', Str ''C''), (''to'', Str ''V'')])
       relay_pair
     = Some (relay_pair,
         [(1, Obj [(''type'', Str ''offer''), (''from'', Str ''C''), (''to'', Str ''V'')])])"
    by (simp add: routeMessage_def relay_pair_def live_target_def sessions_get_def
        sendMessage_def Let_def)
  from routeMessage_from_authenticated [OF auth,
      of "Obj [(''type'', Str ''offer''), (''from'', Str ''X''), (''to'', Str ''V'')]"]
    spoofed auth forwarded
  show ?thesis by simp
qed

subsection \<open>Registration\<close>

text \<open>
  Claim C5, as the code has it. \<open>addClient\<close> turns away only a socket that is already
  registered. A new socket is registered under the id it brings, whether or not another
  socket holds that id: it is entered in \<open>connectedClients\<close>, and \<open>sessions\<close> maps the
  id to the new socket from then on; every other entry of both maps stays as it was.
\<close>

theorem addClient_registers:
  "(map_of (connectedClients r) w = None \<longrightarrow>
      map_of (connectedClients (addClient w cid r)) w = Some \<lparr>clientId = cid, targetId = Null\<rparr>
      \<and> map_of (sessions (addClient w cid r)) cid = Some w
      \<and> (\<forall>w'. w' \<noteq> w \<longrightarrow>
            map_of (connectedClients (addClient w cid r)) w' = map_of (connectedClients r) w')
      \<and> (\<forall>cid'. cid' \<noteq> cid \<longrightarrow>
            map_of (sessions (addClient w cid r)) cid' = map_of (sessions r) cid'))
   \<and> (map_of (connectedClients r) w \<noteq> None \<longrightarrow> addClient w cid r = r)"
  by (simp add: addClient_def update_conv)

theorem addClient_registers_witness:
  "map_of (connectedClients (addClient 1 ''V'' relay0)) 2 = None
   \<and> map_of (connectedClients (addClient 2 ''V'' (addClient 1 ''V'' relay0))) 2
       = Some \<lparr>clientId = ''V'', targetId = Null\<rparr>
   \<and> map_of (connectedClients (addClient 2 ''V'' (addClient 1 ''V'' relay0))) 1
       = Some \<lparr>clientId = ''V'', targetId = Null\<rparr>
   \<and> map_of (sessions (addClient 2 ''V'' (addClient 1 ''V'' relay0))) ''V'' = Some 2
   \<and> addClient 1 ''C'' (addClient 1 ''V'' relay0) = addClient 1 ''V'' relay0"
  using addClient_registers [of "addClient 1 ''V'' relay0" 2 "''V''"]
    addClient_registers [of "addClient 1 ''V'' relay0" 1 "''C''"]
  by (simp add: addClient_def relay0_def)

text \<open>
  The claim itself fails: after two sockets have registered as \<open>V\<close>, both are connected
  under that id, and the second one was not turned away.
\<close>

theorem addClient_duplicate_id_counterexample:
  "connectedClients (addClient 2 ''V'' (addClient 1 ''V'' relay0))
     = [(1, \<lparr>clientId = ''V'', targetId = Null\<rparr>), (2, \<lparr>clientId = ''V'', targetId = Null\<rparr>)]
   \<and> sessions (addClient 2 ''V'' (addClient 1 ''V'' relay0)) = [(''V'', 2)]"
  by (simp add: addClient_def relay0_def)

subsection \<open>Departure\<close>

text \<open>
  Claim C6, as the code has it. When the socket \<open>w\<close> of a registered client closes, it
  is taken out of \<open>connectedClients\<close>. If \<open>sessions\<close> holds an entry for \<open>w\<close>, the
  first such entry is deleted, and a \<open>leave\<close> with the reason \<open>Peer disconnected\<close> is
  written to every remaining client whose \<open>targetId\<close> is the departed id and whose
  socket is open, in the order of \<open>connectedClients\<close>; otherwise nothing is written.
  The \<open>targetId\<close> of the remaining clients is left as it is.
\<close>

theorem removeClient_departure:
  assumes "map_of (connectedClients r) w = Some info"
  shows "connectedClients (fst (removeClient w r)) = AList.delete w (connectedClients r)
       \<and> (find_session w (sessions r) = None \<longrightarrow>
            sessions (fst (removeClient w r)) = sessions r \<and> snd (removeClient w r) = [])
       \<and> (\<forall>cid. find_session w (sessions r) = Some cid \<longrightarrow>
            sessions (fst (removeClient w r)) = AList.delete cid (sessions r)
            \<and> snd (removeClient w r) =
                map (\<lambda>(otherWs, other). (otherWs, leave_notice (clientId info) (clientId other)))
                  (filter (\<lambda>(otherWs, other).
                             targetId other = Str (clientId info) \<and> socket_open r otherWs)
                     (AList.delete w (connectedClients r))))"
  using assms by (auto simp: removeClient_def Let_def notify_peers_filter split: option.splits)

theorem removeClient_departure_witness:
  "map_of (connectedClients relay_pair) 1 = Some \<lparr>clientId = ''V'', targetId = Null\<rparr>
   \<and> find_session 1 (sessions relay_pair) = Some ''V''
   \<and> sessions (fst (removeClient 1 relay_pair)) = [(''C'', 2)]
   \<and> snd (removeClient 1 relay_pair) = [(2, leave_notice ''V'' ''C'')]
   \<and> connectedClients (fst (removeClient 1 relay_pair))
        = [(2, \<lparr>clientId = ''C'', targetId = Str ''V''\<rparr>)]"
  using removeClient_departure [of relay_pair 1 "\<lparr>clientId = ''V'', targetId = Null\<rparr>"]
  by (simp add: relay_pair_def)

text \<open>
  The claim itself fails: the cockpit that had joined \<open>V\<close> is told that \<open>V\<close> left, and
  its \<open>targetId\<close> is still \<open>V\<close> afterwards.
\<close>

theorem removeClient_keeps_partner_counterexample:
  "connectedClients (fst (removeClient 1 relay_pair)) = [(2, \<lparr>clientId = ''C'', targetId = Str ''V''\<rparr>)]
   \<and> snd (removeClient 1 relay_pair) = [(2, leave_notice ''V'' ''C'')]"
  by (simp add: removeClient_def relay_pair_def sendMessage_def)

section \<open>Properties of the peer connection manager\<close>

lemma map_of_map_set:
  "map_of (map_set k v al) k' = (if k' = k then Some v else map_of al k')"
  by (induction al) auto

subsection \<open>Heartbeat receipts\<close>

lemma handleReceivedHeartbeat_interval:
  "heartbeat_interval_ms (handleReceivedHeartbeat now p m) = heartbeat_interval_ms m"
  by (simp add: handleReceivedHeartbeat_def)

lemma handleReceivedHeartbeat_last:
  "0 < heartbeat_interval_ms m \<Longrightarrow>
   map_of (lastHeartbeatRxTime (handleReceivedHeartbeat now p m)) q
     = (if q = p then Some now else map_of (lastHeartbeatRxTime m) q)"
  by (simp add: handleReceivedHeartbeat_def map_of_map_set)

lemma heartbeat_receipts_append:
  "heartbeat_receipts (xs @ ys) m = heartbeat_receipts ys (heartbeat_receipts xs m)"
  by (induction xs arbitrary: m) auto

lemma heartbeat_receipts_interval:
  "heartbeat_interval_ms (heartbeat_receipts xs m) = heartbeat_interval_ms m"
  by (induction xs arbitrary: m) (auto simp: handleReceivedHeartbeat_interval)

lemma heartbeat_receipts_values:
  assumes "0 < heartbeat_interval_ms m"
    and "map_of (lastHeartbeatRxTime (heartbeat_receipts xs m)) q = Some t"
  shows "map_of (lastHeartbeatRxTime m) q = Some t \<or> t \<in> fst ` set xs"
  using assms
proof (induction xs arbitrary: m)
  case Nil
  then show ?case by simp
next
  case (Cons x xs)
  obtain now p where x: "x = (now, p)" by (cases x)
  let ?m1 = "handleReceivedHeartbeat now p m"
  have pos: "0 < heartbeat_interval_ms ?m1"
    using Cons.prems(1) by (simp add: handleReceivedHeartbeat_interval)
  from Cons.prems(2) x have "map_of (lastHeartbeatRxTime (heartbeat_receipts xs ?m1)) q = Some t"
    by simp
  from Cons.IH [OF pos this]
  show ?case
    using Cons.prems(1) x by (auto simp: handleReceivedHeartbeat_last split: if_splits)
qed

text \<open>
  Claim C8. While the heartbeat is enabled, a receipt from \<open>p\<close> sets the entry of \<open>p\<close>
  to the clock reading taken at the receipt. The clock is monotonic, so along a run of
  receipts the readings do not decrease; if the entries present at the start were written
  from earlier readings, then at every step of the run no peer's entry decreases.
\<close>

theorem last_heartbeat_rx_monotone:
  assumes period: "0 < heartbeat_interval_ms m"
    and clock: "sorted (map fst rs)"
    and earlier: "\<forall>q t. map_of (lastHeartbeatRxTime m) q = Some t \<longrightarrow> (\<forall>r \<in> set rs. t \<le> fst r)"
    and step: "rs = xs @ (now, p) # ys"
  shows "map_of (lastHeartbeatRxTime (heartbeat_receipts (xs @ [(now, p)]) m)) p = Some now
       \<and> (\<forall>q t. map_of (lastHeartbeatRxTime (heartbeat_receipts xs m)) q = Some t \<longrightarrow>
            (\<exists>t'. map_of (lastHeartbeatRxTime (heartbeat_receipts (xs @ [(now, p)]) m)) q = Some t'
                  \<and> t \<le> t'))"
proof -
  let ?m1 = "heartbeat_receipts xs m"
  have pos: "0 < heartbeat_interval_ms ?m1"
    using period by (simp add: heartbeat_receipts_interval)
  have after: "heartbeat_receipts (xs @ [(now, p)]) m = handleReceivedHeartbeat now p ?m1"
    by (simp add: heartbeat_receipts_append)
  have bound: "t \<le> now" if "map_of (lastHeartbeatRxTime ?m1) q = Some t" for q t
  proof -
    from heartbeat_receipts_values [OF period that]
    show ?thesis
    proof
      assume "map_of (lastHeartbeatRxTime m) q = Some t"
      with earlier step show ?thesis by auto
    next
      assume "t \<in> fst ` set xs"
      with clock step show ?thesis by (auto simp: sorted_append)
    qed
  qed
  show ?thesis
    using bound by (auto simp: after handleReceivedHeartbeat_last [OF pos])
qed

theorem last_heartbeat_rx_monotone_witness:
  "0 < heartbeat_interval_ms manager_V
   \<and> sorted (map fst [(5::int, ''V''), (7, ''C''), (9, ''V'')])
   \<and> map_of (lastHeartbeatRxTime (heartbeat_receipts ([(5, ''V''), (7, ''C'')] @ [(9, ''V'')])
         manager_V)) ''V'' = Some 9"
proof -
  have period: "0 < heartbeat_interval_ms manager_V"
    by (simp add: manager_V_def manager0_def)
  have clock: "sorted (map fst [(5::int, ''V''), (7, ''C''), (9, ''V'')])"
    by simp
  have earlier: "\<forall>q t. map_of (lastHeartbeatRxTime manager_V) q = Some t \<longrightarrow>
      (\<forall>r \<in> set [(5::int, ''V''), (7, ''C''), (9, ''V'')]. t \<le> fst r)"
    by (auto simp: manager_V_def manager0_def split: if_splits)
  have step: "[(5::int, ''V''), (7, ''C''), (9, ''V'')] = [(5, ''V''), (7, ''C'')] @ (9, ''V'') # []"
    by simp
  from last_heartbeat_rx_monotone [OF period clock earlier step] period clock
  show ?thesis by blast
qed

subsection \<open>The mutex\<close>

lemma lock_free: "\<not> mutex_locked m \<Longrightarrow> lock m = Returned () (m\<lparr>mutex_locked := True\<rparr>)"
  by (simp add: lock_def)

lemma lock_held: "mutex_locked m \<Longrightarrow> lock m = Blocked m"
  by (simp add: lock_def)

subsection \<open>Broadcast\<close>

lemma send_to_all_eq:
  "send_to_all T l d es a =
     (a \<or> (\<exists>p pc. (p, Some pc) \<in> set es \<and> fst (pc_SendData T l d pc)),
      map (\<lambda>(p, c). (p, map_option (\<lambda>pc. snd (pc_SendData T l d pc)) c)) es)"
proof (induction es arbitrary: a)
  case Nil
  then show ?case by simp
next
  case (Cons e es)
  obtain p c where e: "e = (p, c)" by (cases e)
  show ?case
  proof (cases c)
    case None
    with e Cons.IH [of a] show ?thesis by (auto simp: Let_def)
  next
    case (Some pc)
    obtain ok pc' where sd: "pc_SendData T l d pc = (ok, pc')" by (cases "pc_SendData T l d pc")
    show ?thesis
    proof (cases ok)
      case True
      with e Some sd Cons.IH [of True] show ?thesis by (force simp: Let_def)
    next
      case False
      with e Some sd Cons.IH [of a] show ?thesis by (force simp: Let_def)
    qed
  qed
qed

text \<open>
  Claim C3, as the code has it. Called with the mutex free, for whatever implementation
  of the connection interface: when the manager is not \<open>Running\<close>,
  \<open>sendDataChannelMessageToAllPeers\<close> calls nothing and returns \<open>false\<close>; when it is
  \<open>Running\<close>, it calls \<open>SendData\<close> with the label and the payload once on every
  connection of the index, without looking at any channel state itself, and returns a
  boolean, which is true exactly when at least one of these calls reported success.
\<close>

theorem broadcast_any_sent:
  assumes free: "\<not> mutex_locked m"
  shows "(state m \<noteq> Running \<longrightarrow>
            sendDataChannelMessageToAllPeers T l d m = Returned False m)
       \<and> (state m = Running \<longrightarrow>
            sendDataChannelMessageToAllPeers T l d m
              = Returned (\<exists>p pc. (p, Some pc) \<in> set (peerConnections m) \<and> fst (pc_SendData T l d pc))
                  (m\<lparr>peerConnections :=
                       map (\<lambda>(p, c). (p, map_option (\<lambda>pc. snd (pc_SendData T l d pc)) c))
                         (peerConnections m)\<rparr>))"
  using free
  by (simp add: sendDataChannelMessageToAllPeers_def lock_free send_to_all_eq unlock_def)

theorem broadcast_any_sent_witness:
  "\<not> mutex_locked manager_libwebrtc
   \<and> state manager_libwebrtc = Running
   \<and> sendDataChannelMessageToAllPeers libwebrtc ''telemetry'' ''x'' manager_libwebrtc
       = Returned False manager_libwebrtc
   \<and> state (manager_libwebrtc\<lparr>state := Stopped\<rparr>) \<noteq> Running
   \<and> sendDataChannelMessageToAllPeers libwebrtc ''telemetry'' ''x''
         (manager_libwebrtc\<lparr>state := Stopped\<rparr>)
       = Returned False (manager_libwebrtc\<lparr>state := Stopped\<rparr>)"
proof -
  have f: "\<not> mutex_locked manager_libwebrtc"
    by (simp add: manager_libwebrtc_def manager0_def)
  have f': "\<not> mutex_locked (manager_libwebrtc\<lparr>state := Stopped\<rparr>)"
    by (simp add: manager_libwebrtc_def manager0_def)
  have r: "state manager_libwebrtc = Running"
    by (simp add: manager_libwebrtc_def manager0_def)
  have s: "state (manager_libwebrtc\<lparr>state := Stopped\<rparr>) \<noteq> Running"
    by simp
  have none: "\<not> (\<exists>p pc. (p, Some pc) \<in> set (peerConnections manager_libwebrtc)
                   \<and> fst (pc_SendData libwebrtc ''telemetry'' ''x'' pc))"
    by (simp add: libwebrtc_def SendData_def)
  have same: "manager_libwebrtc\<lparr>peerConnections :=
                 map (\<lambda>(p, c). (p, map_option (\<lambda>pc. snd (pc_SendData libwebrtc ''telemetry'' ''x'' pc)) c))
                   (peerConnections manager_libwebrtc)\<rparr> = manager_libwebrtc"
    by (simp add: manager_libwebrtc_def manager0_def libwebrtc_def SendData_def)
  from broadcast_any_sent [OF f, of libwebrtc "''telemetry''" "''x''"]
    broadcast_any_sent [OF f', of libwebrtc "''telemetry''" "''x''"]
    f r s none same
  show ?thesis by simp
qed

text \<open>
  With two connections of the documented kind whose \<open>telemetry\<close> channel is open, both
  calls of \<open>SendData\<close> succeed; the result of the broadcast is \<open>true\<close>, not the count 2.
\<close>

theorem broadcast_bool_not_count_counterexample:
  "successful_enqueues documented ''telemetry'' ''x'' manager_VW = 2
   \<and> sendDataChannelMessageToAllPeers documented ''telemetry'' ''x'' manager_VW
       = Returned True
           (manager_VW\<lparr>peerConnections :=
              [(''V'', Some (pc_connected\<lparr>sent := [(''telemetry'', ''x'')]\<rparr>)),
               (''W'', Some (pc_connected\<lparr>sent := [(''telemetry'', ''x'')]\<rparr>))]\<rparr>)"
  by (simp add: successful_enqueues_def sendDataChannelMessageToAllPeers_def lock_def
      unlock_def documented_def channel_open_def manager_VW_def manager0_def pc_connected_def)

subsection \<open>Answers\<close>

lemma invokePeerErrorCallback_held:
  "mutex_locked m \<Longrightarrow> invokePeerErrorCallback p e m = Blocked m"
  by (simp add: invokePeerErrorCallback_def lock_held)

lemma on_pc_present:
  "map_of (peerConnections m) p = Some (Some pc) \<Longrightarrow>
   map_of (peerConnections (on_pc p f m)) q
     = (if q = p then Some (Some (f pc)) else map_of (peerConnections m) q)"
  by (simp add: on_pc_def map_of_map_set)

lemma on_pc_other_fields:
  "signaling_out (on_pc p f m) = signaling_out m \<and> mutex_locked (on_pc p f m) = mutex_locked m"
  by (simp add: on_pc_def split: option.splits)

lemma getOrCreate_other_fields:
  "signaling_out (snd (getOrCreatePeerConnection T p m)) = signaling_out m
   \<and> mutex_locked (snd (getOrCreatePeerConnection T p m)) = mutex_locked m"
  by (simp add: getOrCreatePeerConnection_def split: option.splits)

lemma getOrCreate_absent:
  "map_of (peerConnections m) p = None \<Longrightarrow> pc_create T p = Some c0 \<Longrightarrow>
   fst (getOrCreatePeerConnection T p m)
   \<and> map_of (peerConnections (snd (getOrCreatePeerConnection T p m))) p = Some (Some c0)"
  by (simp add: getOrCreatePeerConnection_def map_of_map_set)

lemma getOrCreate_present:
  "map_of (peerConnections m) p = Some c \<Longrightarrow>
   getOrCreatePeerConnection T p m = (c \<noteq> None, m)"
  by (simp add: getOrCreatePeerConnection_def)

lemma handle_answer_eq:
  assumes "msg_type message = ANSWER" and "\<not> mutex_locked m"
  shows "handleSignalingMessage T message m =
     (case sdp message of
        Some s \<Rightarrow>
          if fst (getOrCreatePeerConnection T (msg_from message) (m\<lparr>mutex_locked := True\<rparr>))
          then Returned ()
                 (unlock (on_pc (msg_from message)
                    (\<lambda>c. snd (pc_SetRemoteDescription T ''answer'' s c))
                    (snd (getOrCreatePeerConnection T (msg_from message) (m\<lparr>mutex_locked := True\<rparr>)))))
          else Blocked (snd (getOrCreatePeerConnection T (msg_from message) (m\<lparr>mutex_locked := True\<rparr>)))
      | None \<Rightarrow>
          Blocked (snd (getOrCreatePeerConnection T (msg_from message) (m\<lparr>mutex_locked := True\<rparr>))))"
proof -
  let ?g = "getOrCreatePeerConnection T (msg_from message) (m\<lparr>mutex_locked := True\<rparr>)"
  have held: "mutex_locked (snd ?g)"
    by (simp add: getOrCreate_other_fields)
  have blk: "invokePeerErrorCallback (msg_from message) e (snd ?g) = Blocked (snd ?g)" for e
    using held by (rule invokePeerErrorCallback_held)
  show ?thesis
    using assms blk
    by (auto simp: handleSignalingMessage_def lock_free Let_def
        split: prod.splits option.splits bool.splits)
qed

text \<open>
  Claim C7, as the code has it. Called with the mutex free on a message of type
  \<open>ANSWER\<close> from \<open>p\<close>, for whatever implementation of the connection interface,
  \<open>handleSignalingMessage\<close> hands nothing to the signaling client, so no error is sent
  in reply. It looks up the connection of \<open>p\<close> and, when there is none, enters the one
  the factory makes; it tests neither the state of the connection nor a pending offer.
  When the message carries an SDP, it calls \<open>SetRemoteDescription("answer", sdp)\<close> on
  that connection, be it new or old. When the SDP is missing, it calls nothing on the
  connection: a new one is entered as the factory made it, an old entry stays as it was.
\<close>

theorem answer_gets_or_creates:
  assumes ans: "msg_type message = ANSWER" and free: "\<not> mutex_locked m"
  shows "signaling_out (state_of (handleSignalingMessage T message m)) = signaling_out m
       \<and> (\<forall>s c0. sdp message = Some s \<longrightarrow>
            map_of (peerConnections m) (msg_from message) = None \<longrightarrow>
            pc_create T (msg_from message) = Some c0 \<longrightarrow>
            map_of (peerConnections (state_of (handleSignalingMessage T message m))) (msg_from message)
              = Some (Some (snd (pc_SetRemoteDescription T ''answer'' s c0))))
       \<and> (\<forall>s pc. sdp message = Some s \<longrightarrow>
            map_of (peerConnections m) (msg_from message) = Some (Some pc) \<longrightarrow>
            map_of (peerConnections (state_of (handleSignalingMessage T message m))) (msg_from message)
              = Some (Some (snd (pc_SetRemoteDescription T ''answer'' s pc))))
       \<and> (\<forall>c0. sdp message = None \<longrightarrow>
            map_of (peerConnections m) (msg_from message) = None \<longrightarrow>
            pc_create T (msg_from message) = Some c0 \<longrightarrow>
            map_of (peerConnections (state_of (handleSignalingMessage T message m))) (msg_from message)
              = Some (Some c0))
       \<and> (\<forall>c. sdp message = None \<longrightarrow>
            map_of (peerConnections m) (msg_from message) = Some c \<longrightarrow>
            map_of (peerConnections (state_of (handleSignalingMessage T message m))) (msg_from message)
              = Some c)"
proof -
  let ?p = "msg_from message"
  let ?m1 = "m\<lparr>mutex_locked := True\<rparr>"
  let ?g = "getOrCreatePeerConnection T ?p ?m1"
  let ?out = "handleSignalingMessage T message m"
  note eq = handle_answer_eq [OF ans free, of T]
  have out: "signaling_out (state_of ?out) = signaling_out m"
    by (simp add: eq on_pc_other_fields getOrCreate_other_fields unlock_def split: option.splits)
  have created: "map_of (peerConnections (state_of ?out)) ?p
          = Some (Some (snd (pc_SetRemoteDescription T ''answer'' s c0)))"
    if s: "sdp message = Some s" and absent: "map_of (peerConnections m) ?p = None"
      and mk: "pc_create T ?p = Some c0" for s c0
  proof -
    have absent1: "map_of (peerConnections ?m1) ?p = None" using absent by simp
    from getOrCreate_absent [OF absent1 mk]
    have ok: "fst ?g" and new: "map_of (peerConnections (snd ?g)) ?p = Some (Some c0)"
      by simp_all
    show ?thesis
      using ok on_pc_present [OF new, of "\<lambda>c. snd (pc_SetRemoteDescription T ''answer'' s c)" ?p]
      by (simp add: eq s unlock_def)
  qed
  have applied: "map_of (peerConnections (state_of ?out)) ?p
          = Some (Some (snd (pc_SetRemoteDescription T ''answer'' s pc)))"
    if s: "sdp message = Some s" and present: "map_of (peerConnections m) ?p = Some (Some pc)"
    for s pc
  proof -
    have present1: "map_of (peerConnections ?m1) ?p = Some (Some pc)" using present by simp
    show ?thesis
      using on_pc_present [OF present1, of "\<lambda>c. snd (pc_SetRemoteDescription T ''answer'' s c)" ?p]
      by (simp add: eq s getOrCreate_present [OF present1] unlock_def)
  qed
  have fresh: "map_of (peerConnections (state_of ?out)) ?p = Some (Some c0)"
    if s: "sdp message = None" and absent: "map_of (peerConnections m) ?p = None"
      and mk: "pc_create T ?p = Some c0" for c0
  proof -
    have absent1: "map_of (peerConnections ?m1) ?p = None" using absent by simp
    from getOrCreate_absent [OF absent1 mk]
    show ?thesis by (simp add: eq s)
  qed
  have kept: "map_of (peerConnections (state_of ?out)) ?p = Some c"
    if s: "sdp message = None" and present: "map_of (peerConnections m) ?p = Some c" for c
  proof -
    have present1: "map_of (peerConnections ?m1) ?p = Some c" using present by simp
    show ?thesis
      using present by (simp add: eq s getOrCreate_present [OF present1])
  qed
  from out created applied fresh kept show ?thesis by blast
qed

theorem answer_gets_or_creates_witness:
  \<open>DeserializeSignalMessage ''{"type":"answer","from":"V","to":"C","sdp":"v=0"}''
     = Some (SignalMessage_ctor ANSWER ''V'' ''C'')
   \<and> msg_type (SignalMessage_ctor ANSWER ''V'' ''C'') = ANSWER
   \<and> \<not> mutex_locked (manager0 :: LibwebrtcPeerConnectionImpl WebrtcManagerImpl)
   \<and> sdp (SignalMessage_ctor ANSWER ''V'' ''C'') = None
   \<and> map_of (peerConnections (manager0 :: LibwebrtcPeerConnectionImpl WebrtcManagerImpl)) ''V'' = None
   \<and> pc_create libwebrtc ''V'' = Some \<lparr>rtc_peer_connection = False, rtc_close_calls = 0\<rparr>
   \<and> map_of (peerConnections (state_of
        (handleSignalingMessage libwebrtc (SignalMessage_ctor ANSWER ''V'' ''C'') manager0))) ''V''
       = Some (Some \<lparr>rtc_peer_connection = False, rtc_close_calls = 0\<rparr>)
   \<and> signaling_out (state_of
        (handleSignalingMessage libwebrtc (SignalMessage_ctor ANSWER ''V'' ''C'') manager0)) = []
   \<and> sdp ((SignalMessage_ctor ANSWER ''V'' ''C'')\<lparr>sdp := Some ''v=0''\<rparr>) = Some ''v=0''
   \<and> map_of (peerConnections manager_libwebrtc) ''V''
       = Some (Some \<lparr>rtc_peer_connection = False, rtc_close_calls = 0\<rparr>)
   \<and> map_of (peerConnections (state_of
        (handleSignalingMessage libwebrtc
           ((SignalMessage_ctor ANSWER ''V'' ''C'')\<lparr>sdp := Some ''v=0''\<rparr>) manager_libwebrtc))) ''V''
       = Some (Some (snd (pc_SetRemoteDescription libwebrtc ''answer'' ''v=0''
                            \<lparr>rtc_peer_connection = False, rtc_close_calls = 0\<rparr>)))\<close>
proof -
  let ?m0 = "manager0 :: LibwebrtcPeerConnectionImpl WebrtcManagerImpl"
  let ?a = "SignalMessage_ctor ANSWER ''V'' ''C''"
  let ?b = "(SignalMessage_ctor ANSWER ''V'' ''C'')\<lparr>sdp := Some ''v=0''\<rparr>"
  let ?c0 = "\<lparr>rtc_peer_connection = False, rtc_close_calls = 0\<rparr>"
  have parsed: \<open>DeserializeSignalMessage ''{"type":"answer","from":"V","to":"C","sdp":"v=0"}''
     = Some ?a\<close>
    by (simp add: DeserializeSignalMessage_def field_value_def str_find_def substr_def
        StringToType_def stringToTypeMap_def SignalMessage_ctor_def)
  have ta: "msg_type ?a = ANSWER" and fa: "msg_from ?a = ''V''" and sa: "sdp ?a = None"
    by (simp_all add: SignalMessage_ctor_def)
  have tb: "msg_type ?b = ANSWER" and fb: "msg_from ?b = ''V''" and sb: "sdp ?b = Some ''v=0''"
    by (simp_all add: SignalMessage_ctor_def)
  have free0: "\<not> mutex_locked ?m0" by (simp add: manager0_def)
  have freeL: "\<not> mutex_locked manager_libwebrtc" by (simp add: manager_libwebrtc_def manager0_def)
  have absent: "map_of (peerConnections ?m0) ''V'' = None" by (simp add: manager0_def)
  have mk: "pc_create libwebrtc ''V'' = Some ?c0"
    by (simp add: libwebrtc_def createPeerConnection_def)
  have present: "map_of (peerConnections manager_libwebrtc) ''V'' = Some (Some ?c0)"
    by (simp add: manager_libwebrtc_def manager0_def)
  have out0: "signaling_out ?m0 = []" by (simp add: manager0_def)
  from answer_gets_or_creates [OF ta free0, of libwebrtc]
  have r1: "map_of (peerConnections (state_of (handleSignalingMessage libwebrtc ?a ?m0))) ''V''
              = Some (Some ?c0)"
    and r2: "signaling_out (state_of (handleSignalingMessage libwebrtc ?a ?m0)) = []"
    using fa sa absent mk out0 by simp_all
  from answer_gets_or_creates [OF tb freeL, of libwebrtc]
  have r3: "map_of (peerConnections (state_of (handleSignalingMessage libwebrtc ?b manager_libwebrtc)))
              ''V''
            = Some (Some (snd (pc_SetRemoteDescription libwebrtc ''answer'' ''v=0'' ?c0)))"
    using fb sb present by simp
  from parsed ta free0 sa absent mk r1 r2 sb present r3 show ?thesis by blast
qed

text \<open>
  An answer frame from \<open>V\<close> reaches a manager that has no connection for \<open>V\<close> and has
  sent no offer. The parser keeps the type and the two ends and drops the SDP. The
  manager enters a new connection for \<open>V\<close>; nothing is handed to the signaling client.
  The call then stops at the second lock of the mutex.
\<close>

theorem answer_without_offer_counterexample:
  \<open>DeserializeSignalMessage ''{"type":"answer","from":"V","to":"C","sdp":"v=0"}''
     = Some (SignalMessage_ctor ANSWER ''V'' ''C'')
   \<and> handleSignalingMessage libwebrtc (SignalMessage_ctor ANSWER ''V'' ''C'') manager0
       = Blocked (manager0\<lparr> mutex_locked := True,
                            peerConnections :=
                              [(''V'', Some \<lparr>rtc_peer_connection = False, rtc_close_calls = 0\<rparr>)] \<rparr>)\<close>
  by (simp add: DeserializeSignalMessage_def field_value_def str_find_def substr_def
      StringToType_def stringToTypeMap_def SignalMessage_ctor_def
      handleSignalingMessage_def lock_def getOrCreatePeerConnection_def libwebrtc_def
      createPeerConnection_def invokePeerErrorCallback_def manager0_def)

subsection \<open>Heartbeat loss\<close>










end
